theory Spec2Isabelle
  imports Main
begin

section \<open>The games endpoint group of the lichess client\<close>

text \<open>
  This theory embeds \<^verbatim>\<open>lichess_client/endpoints/games.py\<close>: the class \<^verbatim>\<open>Games\<close> with
  its two implemented operations \<^verbatim>\<open>export_one_game\<close> and \<^verbatim>\<open>export_games_of_a_user\<close>
  and its four stubs. Every operation is an \<^verbatim>\<open>async def\<close>; the model describes what
  awaiting the call does. The transport (\<^verbatim>\<open>self._client\<close>) is an external collaborator:
  it is a parameter of the model, its calls are recorded in a log, and an exception is a
  value \<open>Inl e\<close> of the result.
\<close>

subsection \<open>Values, enumerations and the response envelope\<close>

text \<open>
  The values of the query-parameter dictionary are Python strings, ints and bools: the
  source stores \<^verbatim>\<open>since\<close>, \<^verbatim>\<open>until\<close>, \<^verbatim>\<open>limit\<close> (ints) and \<^verbatim>\<open>rated\<close>, \<^verbatim>\<open>analysed\<close>
  (bools) as they are, next to string literals.
\<close>

datatype pyval = PStr string | PInt int | PBool bool

text \<open>
  Modelled from the spec: \<^verbatim>\<open>lichess_client/utils/enums.py\<close> is not part of the sources.
  The spec names the enumerations RequestMethods (HTTP verb), VariantTypes, ColorType and
  StatusTypes (SUCCESS, FAILURE, ERROR). The operations only use \<^verbatim>\<open>RequestMethods.GET\<close>
  and the \<^verbatim>\<open>.value\<close> of a VariantTypes or ColorType member, which is a string; a member
  of these two is represented by the string value it carries, so that a statement about
  every member covers the members of the real enumerations.
\<close>

datatype RequestMethods = GET | POST

datatype VariantTypes = VariantTypes (variant_value: string)

datatype ColorType = ColorType (color_value: string)

datatype StatusTypes = SUCCESS | FAILURE | ERROR

text \<open>
  Modelled from the spec: \<^verbatim>\<open>lichess_client/helpers.py\<close> (the class \<^verbatim>\<open>Response\<close>) is not
  part of the sources. A Response holds an entity with a status and a decoded content.
\<close>

record 'c ResponseEntity =
  status :: StatusTypes
  content :: 'c

datatype 'c Response = Response (entity: "'c ResponseEntity")

text \<open>
  Exceptions. \<open>KeyError\<close> is what \<^verbatim>\<open>str.format\<close> raises for a replacement field that
  no keyword argument names; \<open>TransportError\<close> stands for an exception raised inside the
  transport.
\<close>

datatype error = KeyError string | NotImplementedError | TransportError string

subsection \<open>URL templates and \<^verbatim>\<open>str.format\<close>\<close>

text \<open>
  A URL template is a string with replacement fields, \<^verbatim>\<open>'.../{gameId}'\<close>. It is kept in
  parsed form: literal text and named fields. \<open>str_format t k v\<close> is
  \<^verbatim>\<open>t.format(k=v)\<close> for a string \<open>v\<close>: fields are replaced from left to right, and the
  first field that the keyword does not name raises KeyError.
\<close>

datatype segment = Lit string | Field string

type_synonym template = "segment list"

fun str_format :: "template \<Rightarrow> string \<Rightarrow> string \<Rightarrow> error + string" where
  "str_format [] k v = Inr []"
| "str_format (Lit s # t) k v =
     (case str_format t k v of Inl e \<Rightarrow> Inl e | Inr r \<Rightarrow> Inr (s @ r))"
| "str_format (Field f # t) k v =
     (if f = k
      then (case str_format t k v of Inl e \<Rightarrow> Inl e | Inr r \<Rightarrow> Inr (v @ r))
      else Inl (KeyError f))"

text \<open>The names of the replacement fields of a template.\<close>

fun field_names :: "template \<Rightarrow> string list" where
  "field_names [] = []"
| "field_names (Lit s # t) = field_names t"
| "field_names (Field f # t) = f # field_names t"

text \<open>
  The template with every replacement field substituted by \<open>v\<close>: what the spec calls the
  URL template with \<^verbatim>\<open>{gameId}\<close> (or \<^verbatim>\<open>{username}\<close>) substituted.
\<close>

fun substituted :: "template \<Rightarrow> string \<Rightarrow> string" where
  "substituted [] v = []"
| "substituted (Lit s # t) v = s @ substituted t v"
| "substituted (Field f # t) v = v @ substituted t v"

text \<open>
  \<^verbatim>\<open>lichess_client/utils/hrefs.py\<close> is not part of the sources: the two URL templates
  that \<^verbatim>\<open>games.py\<close> imports from it are parameters of the operations.
\<close>

record hrefs =
  GAMES_EXPORT_ONE_URL :: template
  GAMES_EXPORT_USER_URL :: template

text \<open>
  Modelled from the spec: the templates of section 6 of the spec,
  \<^verbatim>\<open>/game/export/{gameId}\<close> and \<^verbatim>\<open>/games/user/{username}\<close>.
\<close>

definition spec_hrefs :: hrefs where
  "spec_hrefs =
     \<lparr>GAMES_EXPORT_ONE_URL = [Lit ''/game/export/'', Field ''gameId''],
      GAMES_EXPORT_USER_URL = [Lit ''/games/user/'', Field ''username'']\<rparr>"

subsection \<open>The transport\<close>

text \<open>
  One HTTP request as the operations describe it to the transport: the keyword arguments
  \<^verbatim>\<open>method\<close> (the field \<open>http_method\<close>), \<^verbatim>\<open>url\<close>, \<^verbatim>\<open>headers\<close>, \<^verbatim>\<open>params\<close>. The two
  dictionaries are association lists in insertion order.
\<close>

record http_request =
  http_method :: RequestMethods
  url :: string
  headers :: "(string \<times> string) list"
  params :: "(string \<times> pyval) list"

text \<open>
  The client has the single-shot call \<^verbatim>\<open>request\<close> and the streaming call
  \<^verbatim>\<open>request_stream\<close>. Each takes the request and the state \<open>'w\<close> of the outside world
  and gives a Response or raises, and a new state of the world.
\<close>

record ('c, 'w) BaseClient =
  request :: "http_request \<Rightarrow> 'w \<Rightarrow> (error + 'c Response) \<times> 'w"
  request_stream :: "http_request \<Rightarrow> 'w \<Rightarrow> (error + 'c Response) \<times> 'w"

text \<open>
  The state an operation runs in: the log of the transport calls made so far (which of
  the two calls, and with which request), and the state of the outside world.
\<close>

datatype transport_call = Request | RequestStream

type_synonym 'w world = "(transport_call \<times> http_request) list \<times> 'w"

definition call_request ::
  "('c, 'w) BaseClient \<Rightarrow> http_request \<Rightarrow> 'w world \<Rightarrow> (error + 'c Response) \<times> 'w world" where
  "call_request c r s =
     (case request c r (snd s) of (out, w') \<Rightarrow> (out, (fst s @ [(Request, r)], w')))"

definition call_request_stream ::
  "('c, 'w) BaseClient \<Rightarrow> http_request \<Rightarrow> 'w world \<Rightarrow> (error + 'c Response) \<times> 'w world" where
  "call_request_stream c r s =
     (case request_stream c r (snd s) of
        (out, w') \<Rightarrow> (out, (fst s @ [(RequestStream, r)], w')))"

text \<open>The requests that a run issued: the entries it added to the log of \<open>s\<close>.\<close>

definition issued :: "'w world \<Rightarrow> 'a \<times> 'w world \<Rightarrow> (transport_call \<times> http_request) list" where
  "issued s res = drop (length (fst s)) (fst (snd res))"

subsection \<open>The class \<^verbatim>\<open>Games\<close>\<close>

text \<open>\<^verbatim>\<open>__init__\<close> stores the client in \<^verbatim>\<open>self._client\<close>.\<close>

record ('c, 'w) Games =
  client :: "('c, 'w) BaseClient"

definition init :: "('c, 'w) BaseClient \<Rightarrow> ('c, 'w) Games" where
  "init c = \<lparr>client = c\<rparr>"

text \<open>The dictionaries \<^verbatim>\<open>headers\<close> (lines 39-41, 137-139) and \<^verbatim>\<open>parameters\<close> (lines 42-50).\<close>

definition json_headers :: "(string \<times> string) list" where
  "json_headers = [(''Content-Type'', ''application/json'')]"

definition export_one_game_parameters :: "(string \<times> pyval) list" where
  "export_one_game_parameters =
     [(''moves'', PStr ''true''),
      (''pgnInJson'', PStr ''false''),
      (''tags'', PStr ''true''),
      (''clocks'', PStr ''true''),
      (''evals'', PStr ''true''),
      (''opening'', PStr ''true''),
      (''literate'', PStr ''true'')]"

text \<open>
  \<^verbatim>\<open>export_one_game\<close>: the dictionaries are built, the URL is formatted (an exception
  of \<^verbatim>\<open>format\<close> leaves before any call), and the single-shot call is awaited; its
  result, or its exception, is the result.
\<close>

definition export_one_game ::
  "hrefs \<Rightarrow> ('c, 'w) Games \<Rightarrow> string \<Rightarrow> 'w world \<Rightarrow> (error + 'c Response) \<times> 'w world" where
  "export_one_game h self game_id s =
     (case str_format (GAMES_EXPORT_ONE_URL h) ''gameId'' game_id of
        Inl e \<Rightarrow> (Inl e, s)
      | Inr u \<Rightarrow>
          call_request (client self)
            \<lparr>http_method = GET, url = u, headers = json_headers,
             params = export_one_game_parameters\<rparr> s)"

text \<open>
  The optional arguments of \<^verbatim>\<open>export_games_of_a_user\<close>; \<open>None\<close> is Python's
  \<^verbatim>\<open>None\<close>. \<^verbatim>\<open>variant\<close> is one member of VariantTypes or a list of members.
\<close>

datatype variant_arg = Single VariantTypes | Multiple "VariantTypes list"

record user_games_args =
  since :: "int option"
  until :: "int option"
  limit :: "int option"
  vs :: "string option"
  rated :: "bool option"
  variant :: "variant_arg option"
  color :: "ColorType option"
  analysed :: "bool option"
  ongoing :: bool

text \<open>The defaults of the signature (lines 59-67).\<close>

definition default_args :: user_games_args where
  "default_args =
     \<lparr>since = None, until = None, limit = None, vs = None, rated = None,
      variant = None, color = None, analysed = None, ongoing = False\<rparr>"

text \<open>\<^verbatim>\<open>sep.join(xs)\<close> on a list of strings.\<close>

fun join :: "string \<Rightarrow> string list \<Rightarrow> string" where
  "join sep [] = []"
| "join sep [x] = x"
| "join sep (x # y # ys) = x @ sep @ join sep (y # ys)"

text \<open>\<^verbatim>\<open>json.dumps\<close> on a bool.\<close>

definition json_dumps :: "bool \<Rightarrow> string" where
  "json_dumps b = (if b then ''true'' else ''false'')"

text \<open>\<^verbatim>\<open>d[k] = v\<close> on a dictionary: an existing key keeps its place, a new key goes last.\<close>

fun dict_set :: "('k \<times> 'v) list \<Rightarrow> 'k \<Rightarrow> 'v \<Rightarrow> ('k \<times> 'v) list" where
  "dict_set [] k v = [(k, v)]"
| "dict_set ((k', v') # d) k v = (if k' = k then (k, v) # d else (k', v') # dict_set d k v)"

text \<open>Lines 132-135: the rebinding of \<^verbatim>\<open>variant\<close>.\<close>

definition normalised_variant :: "variant_arg option \<Rightarrow> string option" where
  "normalised_variant v =
     (case v of
        None \<Rightarrow> None
      | Some (Multiple entries) \<Rightarrow> Some (join '','' (map variant_value entries))
      | Some (Single entry) \<Rightarrow> Some (variant_value entry))"

text \<open>Lines 140-158: the dictionary \<^verbatim>\<open>parameters\<close>, with the key \<^verbatim>\<open>vs\<close> set afterwards.\<close>

definition export_games_of_a_user_parameters :: "user_games_args \<Rightarrow> (string \<times> pyval) list" where
  "export_games_of_a_user_parameters a =
     (let parameters =
        [(''since'', case since a of None \<Rightarrow> PStr ''Account creation date'' | Some v \<Rightarrow> PInt v),
         (''until'', case until a of None \<Rightarrow> PStr ''Now'' | Some v \<Rightarrow> PInt v),
         (''max'', case limit a of None \<Rightarrow> PStr ''null'' | Some v \<Rightarrow> PInt v),
         (''rated'', case rated a of None \<Rightarrow> PStr ''null'' | Some v \<Rightarrow> PBool v),
         (''perfType'',
            case normalised_variant (variant a) of None \<Rightarrow> PStr ''null'' | Some v \<Rightarrow> PStr v),
         (''color'', case color a of None \<Rightarrow> PStr ''null'' | Some c \<Rightarrow> PStr (color_value c)),
         (''analysed'', case analysed a of None \<Rightarrow> PStr ''null'' | Some v \<Rightarrow> PBool v),
         (''ongoing'', PStr (json_dumps (ongoing a))),
         (''moves'', PStr ''true''),
         (''pgnInJson'', PStr ''false''),
         (''tags'', PStr ''true''),
         (''clocks'', PStr ''true''),
         (''evals'', PStr ''true''),
         (''opening'', PStr ''true'')]
      in case vs a of None \<Rightarrow> parameters | Some v \<Rightarrow> dict_set parameters ''vs'' (PStr v))"

text \<open>
  \<^verbatim>\<open>export_games_of_a_user\<close>: as \<^verbatim>\<open>export_one_game\<close>, with the streaming call.
\<close>

definition export_games_of_a_user ::
  "hrefs \<Rightarrow> ('c, 'w) Games \<Rightarrow> string \<Rightarrow> user_games_args \<Rightarrow> 'w world
     \<Rightarrow> (error + 'c Response) \<times> 'w world" where
  "export_games_of_a_user h self username a s =
     (let parameters = export_games_of_a_user_parameters a in
      case str_format (GAMES_EXPORT_USER_URL h) ''username'' username of
        Inl e \<Rightarrow> (Inl e, s)
      | Inr u \<Rightarrow>
          call_request_stream (client self)
            \<lparr>http_method = GET, url = u, headers = json_headers, params = parameters\<rparr> s)"

text \<open>
  The four stubs: the body is \<^verbatim>\<open>pass\<close>, so the call returns \<^verbatim>\<open>None\<close> (the value \<open>()\<close>),
  raises nothing and calls nothing.
\<close>

definition export_games_by_ids :: "('c, 'w) Games \<Rightarrow> 'w world \<Rightarrow> (error + unit) \<times> 'w world" where
  "export_games_by_ids self s = (Inr (), s)"

definition stream_current_games :: "('c, 'w) Games \<Rightarrow> 'w world \<Rightarrow> (error + unit) \<times> 'w world" where
  "stream_current_games self s = (Inr (), s)"

definition get_ongoing_games :: "('c, 'w) Games \<Rightarrow> 'w world \<Rightarrow> (error + unit) \<times> 'w world" where
  "get_ongoing_games self s = (Inr (), s)"

definition get_current_tv_games :: "('c, 'w) Games \<Rightarrow> 'w world \<Rightarrow> (error + unit) \<times> 'w world" where
  "get_current_tv_games self s = (Inr (), s)"

text \<open>The query-parameter dictionaries of the requests that a run issued.\<close>

definition sent_params :: "'w world \<Rightarrow> 'a \<times> 'w world \<Rightarrow> (string \<times> pyval) list list" where
  "sent_params s res = map (params \<circ> snd) (issued s res)"

subsection \<open>A concrete transport\<close>

text \<open>
  A transport for concrete runs. Its answer depends on the state of the world, a counter
  of the calls made: the first call succeeds (the content echoes the URL), the second
  comes back with a FAILURE or ERROR status, and every later call raises.
\<close>

definition demo_client :: "(string, nat) BaseClient" where
  "demo_client =
     \<lparr>request = (\<lambda>r w.
        (if w = 0 then Inr (Response \<lparr>status = SUCCESS, content = url r\<rparr>)
         else if w = 1 then Inr (Response \<lparr>status = FAILURE, content = ''not found''\<rparr>)
         else Inl (TransportError ''connection reset''), Suc w)),
      request_stream = (\<lambda>r w.
        (if w = 0 then Inr (Response \<lparr>status = SUCCESS, content = url r\<rparr>)
         else if w = 1 then Inr (Response \<lparr>status = ERROR, content = ''unauthorised''\<rparr>)
         else Inl (TransportError ''connection reset''), Suc w))\<rparr>"

text \<open>A call of \<^verbatim>\<open>export_games_of_a_user\<close> with every optional argument supplied.\<close>

definition demo_args :: user_games_args where
  "demo_args =
     \<lparr>since = Some 1577836800000, until = Some 1580515200000, limit = Some 10,
      vs = Some ''someuser'', rated = Some True,
      variant = Some (Multiple [VariantTypes ''blitz'', VariantTypes ''rapid'']),
      color = Some (ColorType ''white''), analysed = Some False, ongoing = True\<rparr>"

section \<open>Properties\<close>

subsection \<open>Auxiliary facts\<close>

lemma str_format_well_formed:
  "set (field_names t) \<subseteq> {k} \<Longrightarrow> str_format t k v = Inr (substituted t v)"
  by (induction t k v rule: str_format.induct) auto

lemma export_one_game_run:
  "export_one_game h self game_id s =
     (case str_format (GAMES_EXPORT_ONE_URL h) ''gameId'' game_id of
        Inl e \<Rightarrow> (Inl e, s)
      | Inr u \<Rightarrow>
          (fst (request (client self)
                 \<lparr>http_method = GET, url = u, headers = json_headers,
                  params = export_one_game_parameters\<rparr> (snd s)),
           fst s @ [(Request, \<lparr>http_method = GET, url = u, headers = json_headers,
                  params = export_one_game_parameters\<rparr>)],
           snd (request (client self)
                 \<lparr>http_method = GET, url = u, headers = json_headers,
                  params = export_one_game_parameters\<rparr> (snd s))))"
  by (simp add: export_one_game_def call_request_def split: sum.splits prod.splits)

lemma export_games_of_a_user_run:
  "export_games_of_a_user h self username a s =
     (case str_format (GAMES_EXPORT_USER_URL h) ''username'' username of
        Inl e \<Rightarrow> (Inl e, s)
      | Inr u \<Rightarrow>
          (fst (request_stream (client self)
                 \<lparr>http_method = GET, url = u, headers = json_headers,
                  params = export_games_of_a_user_parameters a\<rparr> (snd s)),
           fst s @ [(RequestStream, \<lparr>http_method = GET, url = u, headers = json_headers,
                  params = export_games_of_a_user_parameters a\<rparr>)],
           snd (request_stream (client self)
                 \<lparr>http_method = GET, url = u, headers = json_headers,
                  params = export_games_of_a_user_parameters a\<rparr> (snd s))))"
  by (simp add: export_games_of_a_user_def call_request_stream_def split: sum.splits prod.splits)

lemma sent_params_export_one_game:
  "sent_params s (export_one_game h self game_id s) =
     (case str_format (GAMES_EXPORT_ONE_URL h) ''gameId'' game_id of
        Inl e \<Rightarrow> [] | Inr u \<Rightarrow> [export_one_game_parameters])"
  by (simp add: sent_params_def issued_def export_one_game_run split: sum.splits)

lemma sent_params_export_games_of_a_user:
  "sent_params s (export_games_of_a_user h self username a s) =
     (case str_format (GAMES_EXPORT_USER_URL h) ''username'' username of
        Inl e \<Rightarrow> [] | Inr u \<Rightarrow> [export_games_of_a_user_parameters a])"
  by (simp add: sent_params_def issued_def export_games_of_a_user_run split: sum.splits)

lemma map_of_dict_set: "map_of (dict_set d k v) = (map_of d)(k \<mapsto> v)"
  by (induction d k v rule: dict_set.induct) auto

lemma keys_dict_set:
  "map fst (dict_set d k v) = (if k \<in> set (map fst d) then map fst d else map fst d @ [k])"
  by (induction d k v rule: dict_set.induct) auto

lemma sent_params_one_game_elem:
  "p \<in> set (sent_params s (export_one_game h self game_id s)) \<Longrightarrow>
   p = export_one_game_parameters"
  by (simp add: sent_params_export_one_game split: sum.splits)

lemma sent_params_user_elem:
  "p \<in> set (sent_params s (export_games_of_a_user h self username a s)) \<Longrightarrow>
   p = export_games_of_a_user_parameters a"
  by (simp add: sent_params_export_games_of_a_user split: sum.splits)

lemma lookup_since:
  "map_of (export_games_of_a_user_parameters a) ''since'' =
     Some (case since a of None \<Rightarrow> PStr ''Account creation date'' | Some v \<Rightarrow> PInt v)"
  by (cases "vs a") (simp_all add: export_games_of_a_user_parameters_def map_of_dict_set)

lemma lookup_until:
  "map_of (export_games_of_a_user_parameters a) ''until'' =
     Some (case until a of None \<Rightarrow> PStr ''Now'' | Some v \<Rightarrow> PInt v)"
  by (cases "vs a") (simp_all add: export_games_of_a_user_parameters_def map_of_dict_set)

lemma lookup_max:
  "map_of (export_games_of_a_user_parameters a) ''max'' =
     Some (case limit a of None \<Rightarrow> PStr ''null'' | Some v \<Rightarrow> PInt v)"
  by (cases "vs a") (simp_all add: export_games_of_a_user_parameters_def map_of_dict_set)

lemma lookup_rated:
  "map_of (export_games_of_a_user_parameters a) ''rated'' =
     Some (case rated a of None \<Rightarrow> PStr ''null'' | Some v \<Rightarrow> PBool v)"
  by (cases "vs a") (simp_all add: export_games_of_a_user_parameters_def map_of_dict_set)

lemma lookup_perfType:
  "map_of (export_games_of_a_user_parameters a) ''perfType'' =
     Some (case normalised_variant (variant a) of None \<Rightarrow> PStr ''null'' | Some v \<Rightarrow> PStr v)"
  by (cases "vs a") (simp_all add: export_games_of_a_user_parameters_def map_of_dict_set)

lemma lookup_color:
  "map_of (export_games_of_a_user_parameters a) ''color'' =
     Some (case color a of None \<Rightarrow> PStr ''null'' | Some c \<Rightarrow> PStr (color_value c))"
  by (cases "vs a") (simp_all add: export_games_of_a_user_parameters_def map_of_dict_set)

lemma lookup_analysed:
  "map_of (export_games_of_a_user_parameters a) ''analysed'' =
     Some (case analysed a of None \<Rightarrow> PStr ''null'' | Some v \<Rightarrow> PBool v)"
  by (cases "vs a") (simp_all add: export_games_of_a_user_parameters_def map_of_dict_set)

lemma lookup_ongoing:
  "map_of (export_games_of_a_user_parameters a) ''ongoing'' = Some (PStr (json_dumps (ongoing a)))"
  by (cases "vs a") (simp_all add: export_games_of_a_user_parameters_def map_of_dict_set)

lemma lookup_vs:
  "map_of (export_games_of_a_user_parameters a) ''vs'' = map_option PStr (vs a)"
  by (cases "vs a") (simp_all add: export_games_of_a_user_parameters_def map_of_dict_set)

lemma lookup_flags:
  "map_of (export_games_of_a_user_parameters a) ''moves'' = Some (PStr ''true'')"
  "map_of (export_games_of_a_user_parameters a) ''pgnInJson'' = Some (PStr ''false'')"
  "map_of (export_games_of_a_user_parameters a) ''tags'' = Some (PStr ''true'')"
  "map_of (export_games_of_a_user_parameters a) ''clocks'' = Some (PStr ''true'')"
  "map_of (export_games_of_a_user_parameters a) ''evals'' = Some (PStr ''true'')"
  "map_of (export_games_of_a_user_parameters a) ''opening'' = Some (PStr ''true'')"
  by (cases "vs a"; simp add: export_games_of_a_user_parameters_def map_of_dict_set)+

lemma lookup_literate:
  "map_of (export_games_of_a_user_parameters a) ''literate'' = None"
  by (cases "vs a") (simp_all add: export_games_of_a_user_parameters_def map_of_dict_set)

lemma parameter_keys:
  "map fst (export_games_of_a_user_parameters a) =
     [''since'', ''until'', ''max'', ''rated'', ''perfType'', ''color'', ''analysed'',
      ''ongoing'', ''moves'', ''pgnInJson'', ''tags'', ''clocks'', ''evals'', ''opening'']
     @ (case vs a of None \<Rightarrow> [] | Some v \<Rightarrow> [''vs''])"
  by (cases "vs a") (simp_all add: export_games_of_a_user_parameters_def keys_dict_set)

lemma join_closed_form:
  "join sep (x # xs) = x @ concat (map (\<lambda>y. sep @ y) xs)"
  by (induction xs arbitrary: x) simp_all

lemma join_variant_values:
  "join sep (map variant_value (e # es)) =
     variant_value e @ concat (map (\<lambda>x. sep @ variant_value x) es)"
  by (simp add: join_closed_form o_def)

lemma perfType_cases:
  "(case normalised_variant v of None \<Rightarrow> PStr ''null'' | Some x \<Rightarrow> PStr x) =
   (case v of
      None \<Rightarrow> PStr ''null''
    | Some (Single entry) \<Rightarrow> PStr (variant_value entry)
    | Some (Multiple entries) \<Rightarrow>
        PStr (case entries of
                [] \<Rightarrow> []
              | e # es \<Rightarrow> variant_value e @ concat (map (\<lambda>x. '','' @ variant_value x) es)))"
  by (simp add: normalised_variant_def join_closed_form o_def
      split: option.splits variant_arg.splits list.splits)

lemma demo_three_sent:
  "sent_params ([], 0)
     (export_games_of_a_user spec_hrefs (init demo_client) ''amasend''
        (default_args\<lparr>variant :=
           Some (Multiple [VariantTypes ''bullet'', VariantTypes ''blitz'',
             VariantTypes ''rapid''])\<rparr>) ([], 0)) =
   [[(''since'', PStr ''Account creation date''), (''until'', PStr ''Now''),
     (''max'', PStr ''null''), (''rated'', PStr ''null''),
     (''perfType'', PStr ''bullet,blitz,rapid''),
     (''color'', PStr ''null''), (''analysed'', PStr ''null''), (''ongoing'', PStr ''false''),
     (''moves'', PStr ''true''), (''pgnInJson'', PStr ''false''), (''tags'', PStr ''true''),
     (''clocks'', PStr ''true''), (''evals'', PStr ''true''), (''opening'', PStr ''true'')]]"
  by (simp add: sent_params_export_games_of_a_user spec_hrefs_def default_args_def
      export_games_of_a_user_parameters_def normalised_variant_def json_dumps_def)

lemma demo_one_game_sent:
  "sent_params ([], 0) (export_one_game spec_hrefs (init demo_client) ''q7zvsdUF'' ([], 0)) =
     [[(''moves'', PStr ''true''), (''pgnInJson'', PStr ''false''), (''tags'', PStr ''true''),
       (''clocks'', PStr ''true''), (''evals'', PStr ''true''), (''opening'', PStr ''true''),
       (''literate'', PStr ''true'')]]"
  by (simp add: sent_params_export_one_game spec_hrefs_def export_one_game_parameters_def)

lemma demo_default_sent:
  "sent_params ([], 0)
     (export_games_of_a_user spec_hrefs (init demo_client) ''amasend'' default_args ([], 0)) =
   [[(''since'', PStr ''Account creation date''), (''until'', PStr ''Now''),
     (''max'', PStr ''null''), (''rated'', PStr ''null''), (''perfType'', PStr ''null''),
     (''color'', PStr ''null''), (''analysed'', PStr ''null''), (''ongoing'', PStr ''false''),
     (''moves'', PStr ''true''), (''pgnInJson'', PStr ''false''), (''tags'', PStr ''true''),
     (''clocks'', PStr ''true''), (''evals'', PStr ''true''), (''opening'', PStr ''true'')]]"
  by (simp add: sent_params_export_games_of_a_user spec_hrefs_def default_args_def
      export_games_of_a_user_parameters_def normalised_variant_def json_dumps_def)

lemma demo_args_sent:
  "sent_params ([], 0)
     (export_games_of_a_user spec_hrefs (init demo_client) ''amasend'' demo_args ([], 0)) =
   [[(''since'', PInt 1577836800000), (''until'', PInt 1580515200000),
     (''max'', PInt 10), (''rated'', PBool True), (''perfType'', PStr ''blitz,rapid''),
     (''color'', PStr ''white''), (''analysed'', PBool False), (''ongoing'', PStr ''true''),
     (''moves'', PStr ''true''), (''pgnInJson'', PStr ''false''), (''tags'', PStr ''true''),
     (''clocks'', PStr ''true''), (''evals'', PStr ''true''), (''opening'', PStr ''true''),
     (''vs'', PStr ''someuser'')]]"
  by (simp add: sent_params_export_games_of_a_user spec_hrefs_def demo_args_def
      export_games_of_a_user_parameters_def normalised_variant_def json_dumps_def)

lemma demo_single_sent:
  "sent_params ([], 0)
     (export_games_of_a_user spec_hrefs (init demo_client) ''amasend''
        (default_args\<lparr>variant := Some (Single (VariantTypes ''chess960''))\<rparr>) ([], 0)) =
   [[(''since'', PStr ''Account creation date''), (''until'', PStr ''Now''),
     (''max'', PStr ''null''), (''rated'', PStr ''null''), (''perfType'', PStr ''chess960''),
     (''color'', PStr ''null''), (''analysed'', PStr ''null''), (''ongoing'', PStr ''false''),
     (''moves'', PStr ''true''), (''pgnInJson'', PStr ''false''), (''tags'', PStr ''true''),
     (''clocks'', PStr ''true''), (''evals'', PStr ''true''), (''opening'', PStr ''true'')]]"
  by (simp add: sent_params_export_games_of_a_user spec_hrefs_def default_args_def
      export_games_of_a_user_parameters_def normalised_variant_def json_dumps_def)

lemma demo_list_sent:
  "sent_params ([], 0)
     (export_games_of_a_user spec_hrefs (init demo_client) ''amasend''
        (default_args\<lparr>variant :=
           Some (Multiple [VariantTypes ''blitz'', VariantTypes ''rapid''])\<rparr>) ([], 0)) =
   [[(''since'', PStr ''Account creation date''), (''until'', PStr ''Now''),
     (''max'', PStr ''null''), (''rated'', PStr ''null''), (''perfType'', PStr ''blitz,rapid''),
     (''color'', PStr ''null''), (''analysed'', PStr ''null''), (''ongoing'', PStr ''false''),
     (''moves'', PStr ''true''), (''pgnInJson'', PStr ''false''), (''tags'', PStr ''true''),
     (''clocks'', PStr ''true''), (''evals'', PStr ''true''), (''opening'', PStr ''true'')]]"
  by (simp add: sent_params_export_games_of_a_user spec_hrefs_def default_args_def
      export_games_of_a_user_parameters_def normalised_variant_def json_dumps_def)

subsection \<open>The claims\<close>

text \<open>
  Claim C1, as the code has it. The claim says that each of the four stub operations
  fails with a "not implemented" error. The bodies are \<^verbatim>\<open>pass\<close>: for every object and
  every state, each of \<^verbatim>\<open>export_games_by_ids\<close>, \<^verbatim>\<open>stream_current_games\<close>,
  \<^verbatim>\<open>get_ongoing_games\<close> and \<^verbatim>\<open>get_current_tv_games\<close> returns \<^verbatim>\<open>None\<close> without an
  error, and leaves the log of transport calls and the world as they were.
\<close>

theorem stubs_return_none:
  "export_games_by_ids self s = (Inr (), s) \<and>
   stream_current_games self s = (Inr (), s) \<and>
   get_ongoing_games self s = (Inr (), s) \<and>
   get_current_tv_games self s = (Inr (), s)"
  by (simp add: export_games_by_ids_def stream_current_games_def get_ongoing_games_def
      get_current_tv_games_def)

text \<open>
  Claim C1 as stated fails: on a concrete object the four stubs do not end in
  \<open>NotImplementedError\<close>; \<^verbatim>\<open>export_games_by_ids\<close> returns \<^verbatim>\<open>None\<close>.
\<close>

theorem stubs_not_implemented_counterexample:
  "fst (export_games_by_ids (init demo_client) ([], 0)) = Inr () \<and>
   fst (export_games_by_ids (init demo_client) ([], 0)) \<noteq> Inl NotImplementedError \<and>
   fst (stream_current_games (init demo_client) ([], 0)) \<noteq> Inl NotImplementedError \<and>
   fst (get_ongoing_games (init demo_client) ([], 0)) \<noteq> Inl NotImplementedError \<and>
   fst (get_current_tv_games (init demo_client) ([], 0)) \<noteq> Inl NotImplementedError"
  by (simp add: export_games_by_ids_def stream_current_games_def get_ongoing_games_def
      get_current_tv_games_def)

text \<open>
  Claim C2, as the code has it. Every query-parameter dictionary that \<^verbatim>\<open>export_one_game\<close>
  sends has exactly the seven keys moves, pgnInJson, tags, clocks, evals, opening and
  literate, each once; pgnInJson is mapped to the string \<^verbatim>\<open>'false'\<close> and the six others
  to the string \<^verbatim>\<open>'true'\<close>.
\<close>

theorem export_one_game_fixed_parameters:
  "\<forall>p \<in> set (sent_params s (export_one_game h self game_id s)).
     distinct (map fst p) \<and>
     set (map fst p) =
       {''moves'', ''pgnInJson'', ''tags'', ''clocks'', ''evals'', ''opening'', ''literate''} \<and>
     map_of p ''pgnInJson'' = Some (PStr ''false'') \<and>
     map_of p ''moves'' = Some (PStr ''true'') \<and>
     map_of p ''tags'' = Some (PStr ''true'') \<and>
     map_of p ''clocks'' = Some (PStr ''true'') \<and>
     map_of p ''evals'' = Some (PStr ''true'') \<and>
     map_of p ''opening'' = Some (PStr ''true'') \<and>
     map_of p ''literate'' = Some (PStr ''true'')"
proof
  fix p
  assume "p \<in> set (sent_params s (export_one_game h self game_id s))"
  then have p: "p = export_one_game_parameters"
    by (rule sent_params_one_game_elem)
  have keys: "map fst export_one_game_parameters =
      [''moves'', ''pgnInJson'', ''tags'', ''clocks'', ''evals'', ''opening'', ''literate'']"
    by (simp add: export_one_game_parameters_def)
  have d: "distinct (map fst p)"
    unfolding p keys by simp
  have k: "set (map fst p) =
      {''moves'', ''pgnInJson'', ''tags'', ''clocks'', ''evals'', ''opening'', ''literate''}"
    unfolding p keys by simp
  have v: "map_of p ''pgnInJson'' = Some (PStr ''false'')"
    "map_of p ''moves'' = Some (PStr ''true'')"
    "map_of p ''tags'' = Some (PStr ''true'')"
    "map_of p ''clocks'' = Some (PStr ''true'')"
    "map_of p ''evals'' = Some (PStr ''true'')"
    "map_of p ''opening'' = Some (PStr ''true'')"
    "map_of p ''literate'' = Some (PStr ''true'')"
    unfolding p by (simp_all add: export_one_game_parameters_def)
  from d k v show "distinct (map fst p) \<and>
     set (map fst p) =
       {''moves'', ''pgnInJson'', ''tags'', ''clocks'', ''evals'', ''opening'', ''literate''} \<and>
     map_of p ''pgnInJson'' = Some (PStr ''false'') \<and>
     map_of p ''moves'' = Some (PStr ''true'') \<and>
     map_of p ''tags'' = Some (PStr ''true'') \<and>
     map_of p ''clocks'' = Some (PStr ''true'') \<and>
     map_of p ''evals'' = Some (PStr ''true'') \<and>
     map_of p ''opening'' = Some (PStr ''true'') \<and>
     map_of p ''literate'' = Some (PStr ''true'')"
    by blast
qed

text \<open>
  The theorem of claim C2 at concrete calls on the transport \<open>demo_client\<close>.
\<close>

theorem export_one_game_fixed_parameters_witness:
  "sent_params ([], 0) (export_one_game spec_hrefs (init demo_client) ''q7zvsdUF'' ([], 0)) \<noteq> [] \<and>
   map_of (hd (sent_params ([], 0)
     (export_one_game spec_hrefs (init demo_client) ''q7zvsdUF'' ([], 0)))) ''pgnInJson''
     = Some (PStr ''false'') \<and>
   map_of (hd (sent_params ([], 0)
     (export_one_game spec_hrefs (init demo_client) ''q7zvsdUF'' ([], 0)))) ''literate''
     = Some (PStr ''true'')"
  using export_one_game_fixed_parameters
    [of "([], 0)" spec_hrefs "init demo_client" "''q7zvsdUF''"]
  by (simp add: demo_one_game_sent)

text \<open>
  Claim C2 as stated (all seven keys mapped to \<^verbatim>\<open>'true'\<close>) fails: for the game
  \<^verbatim>\<open>q7zvsdUF\<close> the dictionary sent maps pgnInJson to \<^verbatim>\<open>'false'\<close>.
\<close>

theorem export_one_game_all_true_counterexample:
  "sent_params ([], 0) (export_one_game spec_hrefs (init demo_client) ''q7zvsdUF'' ([], 0)) =
     [[(''moves'', PStr ''true''), (''pgnInJson'', PStr ''false''), (''tags'', PStr ''true''),
       (''clocks'', PStr ''true''), (''evals'', PStr ''true''), (''opening'', PStr ''true''),
       (''literate'', PStr ''true'')]] \<and>
   map_of (hd (sent_params ([], 0)
     (export_one_game spec_hrefs (init demo_client) ''q7zvsdUF'' ([], 0)))) ''pgnInJson''
     \<noteq> Some (PStr ''true'')"
  by (simp add: demo_one_game_sent)

text \<open>
  Claim C3. In every query-parameter dictionary that \<^verbatim>\<open>export_games_of_a_user\<close> sends,
  the keys since, until, max, rated, perfType and analysed are present. When the argument
  is \<^verbatim>\<open>None\<close> the value is the sentinel: \<^verbatim>\<open>'Account creation date'\<close> for since,
  \<^verbatim>\<open>'Now'\<close> for until, \<^verbatim>\<open>'null'\<close> for max (the argument \<^verbatim>\<open>limit\<close>), rated, perfType
  (the argument \<^verbatim>\<open>variant\<close>) and analysed. When the argument is supplied the value is
  the argument; for \<^verbatim>\<open>variant\<close> it is the argument after the normalisation of lines
  132-135: the value of a single member, and for a list the values of its members with
  a comma before each but the first (the empty string for the empty list).
\<close>

theorem absent_filters_have_sentinels:
  "\<forall>p \<in> set (sent_params s (export_games_of_a_user h self username a s)).
     map_of p ''since'' =
       Some (case since a of None \<Rightarrow> PStr ''Account creation date'' | Some v \<Rightarrow> PInt v) \<and>
     map_of p ''until'' = Some (case until a of None \<Rightarrow> PStr ''Now'' | Some v \<Rightarrow> PInt v) \<and>
     map_of p ''max'' = Some (case limit a of None \<Rightarrow> PStr ''null'' | Some v \<Rightarrow> PInt v) \<and>
     map_of p ''rated'' = Some (case rated a of None \<Rightarrow> PStr ''null'' | Some v \<Rightarrow> PBool v) \<and>
     map_of p ''perfType'' =
       Some (case variant a of
               None \<Rightarrow> PStr ''null''
             | Some (Single entry) \<Rightarrow> PStr (variant_value entry)
             | Some (Multiple entries) \<Rightarrow>
                 PStr (case entries of
                         [] \<Rightarrow> []
                       | e # es \<Rightarrow>
                           variant_value e @ concat (map (\<lambda>x. '','' @ variant_value x) es))) \<and>
     map_of p ''analysed'' =
       Some (case analysed a of None \<Rightarrow> PStr ''null'' | Some v \<Rightarrow> PBool v)"
proof
  fix p
  assume "p \<in> set (sent_params s (export_games_of_a_user h self username a s))"
  then have p: "p = export_games_of_a_user_parameters a"
    by (rule sent_params_user_elem)
  show "map_of p ''since'' =
       Some (case since a of None \<Rightarrow> PStr ''Account creation date'' | Some v \<Rightarrow> PInt v) \<and>
     map_of p ''until'' = Some (case until a of None \<Rightarrow> PStr ''Now'' | Some v \<Rightarrow> PInt v) \<and>
     map_of p ''max'' = Some (case limit a of None \<Rightarrow> PStr ''null'' | Some v \<Rightarrow> PInt v) \<and>
     map_of p ''rated'' = Some (case rated a of None \<Rightarrow> PStr ''null'' | Some v \<Rightarrow> PBool v) \<and>
     map_of p ''perfType'' =
       Some (case variant a of
               None \<Rightarrow> PStr ''null''
             | Some (Single entry) \<Rightarrow> PStr (variant_value entry)
             | Some (Multiple entries) \<Rightarrow>
                 PStr (case entries of
                         [] \<Rightarrow> []
                       | e # es \<Rightarrow>
                           variant_value e @ concat (map (\<lambda>x. '','' @ variant_value x) es))) \<and>
     map_of p ''analysed'' =
       Some (case analysed a of None \<Rightarrow> PStr ''null'' | Some v \<Rightarrow> PBool v)"
    unfolding p
    by (simp only: lookup_since lookup_until lookup_max lookup_rated lookup_perfType
        lookup_analysed perfType_cases simp_thms)
qed

text \<open>
  The theorem of claim C3 at concrete calls on the transport \<open>demo_client\<close>.
\<close>

theorem absent_filters_have_sentinels_witness:
  "map (\<lambda>k. map_of (hd (sent_params ([], 0)
       (export_games_of_a_user spec_hrefs (init demo_client) ''amasend'' default_args ([], 0)))) k)
     [''since'', ''until'', ''max'', ''rated'', ''perfType'', ''analysed''] =
     [Some (PStr ''Account creation date''), Some (PStr ''Now''), Some (PStr ''null''),
      Some (PStr ''null''), Some (PStr ''null''), Some (PStr ''null'')] \<and>
   map (\<lambda>k. map_of (hd (sent_params ([], 0)
       (export_games_of_a_user spec_hrefs (init demo_client) ''amasend'' demo_args ([], 0)))) k)
     [''since'', ''until'', ''max'', ''rated'', ''perfType'', ''analysed''] =
     [Some (PInt 1577836800000), Some (PInt 1580515200000), Some (PInt 10),
      Some (PBool True), Some (PStr ''blitz,rapid''), Some (PBool False)]"
proof -
  let ?d = "sent_params ([], 0)
       (export_games_of_a_user spec_hrefs (init demo_client) ''amasend'' default_args ([], 0))"
  let ?e = "sent_params ([], 0)
       (export_games_of_a_user spec_hrefs (init demo_client) ''amasend'' demo_args ([], 0))"
  have "hd ?d \<in> set ?d" and "hd ?e \<in> set ?e"
    by (simp_all add: demo_default_sent demo_args_sent)
  with absent_filters_have_sentinels
      [of "([], 0)" spec_hrefs "init demo_client" "''amasend''" default_args]
    absent_filters_have_sentinels
      [of "([], 0)" spec_hrefs "init demo_client" "''amasend''" demo_args]
  show ?thesis
    by (simp add: default_args_def demo_args_def)
qed

text \<open>
  Claim C4. When \<^verbatim>\<open>variant\<close> is a non-empty list of VariantTypes members, perfType is
  the single string of their values joined with commas: the value of the first member,
  then a comma and the value of each further member, in the order of the list. For two
  members \<open>A\<close> and \<open>B\<close> it is the value of \<open>A\<close>, a comma, the value of \<open>B\<close>; when
  \<^verbatim>\<open>variant\<close> is a single member, perfType is its bare value.
\<close>

theorem variant_serialisation:
  "(\<forall>p \<in> set (sent_params s (export_games_of_a_user h self username
        (a\<lparr>variant := Some (Multiple (e # es))\<rparr>) s)).
      map_of p ''perfType'' =
        Some (PStr (variant_value e @ concat (map (\<lambda>x. '','' @ variant_value x) es)))) \<and>
   (\<forall>p \<in> set (sent_params s (export_games_of_a_user h self username
        (a\<lparr>variant := Some (Multiple [A, B])\<rparr>) s)).
      map_of p ''perfType'' = Some (PStr (variant_value A @ '','' @ variant_value B))) \<and>
   (\<forall>p \<in> set (sent_params s (export_games_of_a_user h self username
        (a\<lparr>variant := Some (Single A)\<rparr>) s)).
      map_of p ''perfType'' = Some (PStr (variant_value A)))"
proof (intro conjI ballI)
  fix p
  assume "p \<in> set (sent_params s (export_games_of_a_user h self username
        (a\<lparr>variant := Some (Multiple (e # es))\<rparr>) s))"
  then have "p = export_games_of_a_user_parameters (a\<lparr>variant := Some (Multiple (e # es))\<rparr>)"
    by (rule sent_params_user_elem)
  then show "map_of p ''perfType'' =
      Some (PStr (variant_value e @ concat (map (\<lambda>x. '','' @ variant_value x) es)))"
    by (simp add: lookup_perfType perfType_cases)
next
  fix p
  assume "p \<in> set (sent_params s (export_games_of_a_user h self username
        (a\<lparr>variant := Some (Multiple [A, B])\<rparr>) s))"
  then have "p = export_games_of_a_user_parameters (a\<lparr>variant := Some (Multiple [A, B])\<rparr>)"
    by (rule sent_params_user_elem)
  then show "map_of p ''perfType'' = Some (PStr (variant_value A @ '','' @ variant_value B))"
    by (simp add: lookup_perfType perfType_cases)
next
  fix p
  assume "p \<in> set (sent_params s (export_games_of_a_user h self username
        (a\<lparr>variant := Some (Single A)\<rparr>) s))"
  then have "p = export_games_of_a_user_parameters (a\<lparr>variant := Some (Single A)\<rparr>)"
    by (rule sent_params_user_elem)
  then show "map_of p ''perfType'' = Some (PStr (variant_value A))"
    by (simp add: lookup_perfType perfType_cases)
qed

text \<open>
  The theorem of claim C4 at concrete calls on the transport \<open>demo_client\<close>.
\<close>

theorem variant_serialisation_witness:
  "map_of (hd (sent_params ([], 0)
     (export_games_of_a_user spec_hrefs (init demo_client) ''amasend''
        (default_args\<lparr>variant :=
           Some (Multiple [VariantTypes ''bullet'', VariantTypes ''blitz'',
             VariantTypes ''rapid''])\<rparr>) ([], 0))))
     ''perfType'' = Some (PStr ''bullet,blitz,rapid'') \<and>
   map_of (hd (sent_params ([], 0)
     (export_games_of_a_user spec_hrefs (init demo_client) ''amasend''
        (default_args\<lparr>variant :=
           Some (Multiple [VariantTypes ''blitz'', VariantTypes ''rapid''])\<rparr>) ([], 0))))
     ''perfType'' = Some (PStr ''blitz,rapid'') \<and>
   map_of (hd (sent_params ([], 0)
     (export_games_of_a_user spec_hrefs (init demo_client) ''amasend''
        (default_args\<lparr>variant := Some (Single (VariantTypes ''chess960''))\<rparr>) ([], 0))))
     ''perfType'' = Some (PStr ''chess960'')"
proof -
  let ?t = "sent_params ([], 0)
     (export_games_of_a_user spec_hrefs (init demo_client) ''amasend''
        (default_args\<lparr>variant :=
           Some (Multiple [VariantTypes ''bullet'', VariantTypes ''blitz'',
             VariantTypes ''rapid''])\<rparr>) ([], 0))"
  let ?l = "sent_params ([], 0)
     (export_games_of_a_user spec_hrefs (init demo_client) ''amasend''
        (default_args\<lparr>variant :=
           Some (Multiple [VariantTypes ''blitz'', VariantTypes ''rapid''])\<rparr>) ([], 0))"
  let ?o = "sent_params ([], 0)
     (export_games_of_a_user spec_hrefs (init demo_client) ''amasend''
        (default_args\<lparr>variant := Some (Single (VariantTypes ''chess960''))\<rparr>) ([], 0))"
  have "hd ?t \<in> set ?t" and "hd ?l \<in> set ?l" and "hd ?o \<in> set ?o"
    by (simp_all add: demo_three_sent demo_list_sent demo_single_sent)
  with variant_serialisation
      [where s = "([], 0)" and h = spec_hrefs and self = "init demo_client"
        and username = "''amasend''" and a = default_args
        and e = "VariantTypes ''bullet''"
        and es = "[VariantTypes ''blitz'', VariantTypes ''rapid'']"
        and A = "VariantTypes ''blitz''" and B = "VariantTypes ''rapid''"]
    variant_serialisation
      [where s = "([], 0)" and h = spec_hrefs and self = "init demo_client"
        and username = "''amasend''" and a = default_args
        and e = "VariantTypes ''blitz''" and es = "[]"
        and A = "VariantTypes ''chess960''" and B = "VariantTypes ''rapid''"]
  show ?thesis
    by simp
qed

text \<open>
  Claim C5. The key vs is in the dictionary that \<^verbatim>\<open>export_games_of_a_user\<close> sends if
  and only if the argument \<^verbatim>\<open>vs\<close> is not \<^verbatim>\<open>None\<close>; when it is supplied the key is
  mapped to it, and when it is absent the key has no value at all, no sentinel.
\<close>

theorem vs_key_only_when_supplied:
  "\<forall>p \<in> set (sent_params s (export_games_of_a_user h self username a s)).
     (''vs'' \<in> set (map fst p)) = (vs a \<noteq> None) \<and>
     map_of p ''vs'' = (case vs a of None \<Rightarrow> None | Some v \<Rightarrow> Some (PStr v))"
proof
  fix p
  assume "p \<in> set (sent_params s (export_games_of_a_user h self username a s))"
  then have p: "p = export_games_of_a_user_parameters a"
    by (rule sent_params_user_elem)
  have "(''vs'' \<in> set (map fst p)) = (vs a \<noteq> None)"
    unfolding p parameter_keys by (cases "vs a") simp_all
  moreover have "map_of p ''vs'' = (case vs a of None \<Rightarrow> None | Some v \<Rightarrow> Some (PStr v))"
    unfolding p lookup_vs by (cases "vs a") simp_all
  ultimately show "(''vs'' \<in> set (map fst p)) = (vs a \<noteq> None) \<and>
     map_of p ''vs'' = (case vs a of None \<Rightarrow> None | Some v \<Rightarrow> Some (PStr v))"
    by simp
qed

text \<open>
  The theorem of claim C5 at concrete calls on the transport \<open>demo_client\<close>.
\<close>

theorem vs_key_only_when_supplied_witness:
  "''vs'' \<notin> set (map fst (hd (sent_params ([], 0)
     (export_games_of_a_user spec_hrefs (init demo_client) ''amasend'' default_args ([], 0))))) \<and>
   ''vs'' \<in> set (map fst (hd (sent_params ([], 0)
     (export_games_of_a_user spec_hrefs (init demo_client) ''amasend'' demo_args ([], 0))))) \<and>
   map_of (hd (sent_params ([], 0)
     (export_games_of_a_user spec_hrefs (init demo_client) ''amasend'' demo_args ([], 0))))
     ''vs'' = Some (PStr ''someuser'')"
proof -
  let ?d = "sent_params ([], 0)
       (export_games_of_a_user spec_hrefs (init demo_client) ''amasend'' default_args ([], 0))"
  let ?e = "sent_params ([], 0)
       (export_games_of_a_user spec_hrefs (init demo_client) ''amasend'' demo_args ([], 0))"
  have "hd ?d \<in> set ?d" and "hd ?e \<in> set ?e"
    by (simp_all add: demo_default_sent demo_args_sent)
  with vs_key_only_when_supplied
      [of "([], 0)" spec_hrefs "init demo_client" "''amasend''" default_args]
    vs_key_only_when_supplied
      [of "([], 0)" spec_hrefs "init demo_client" "''amasend''" demo_args]
  show ?thesis
    by (simp add: default_args_def demo_args_def)
qed

text \<open>
  Claim C6, as the code has it. Every dictionary that \<^verbatim>\<open>export_games_of_a_user\<close> sends
  maps ongoing to the text \<^verbatim>\<open>'true'\<close> or \<^verbatim>\<open>'false'\<close> of the argument, and has the six
  fixed flags moves, pgnInJson, tags, clocks, evals and opening (pgnInJson is
  \<^verbatim>\<open>'false'\<close>, the others \<^verbatim>\<open>'true'\<close>); literate, the seventh flag of
  \<^verbatim>\<open>export_one_game\<close>, is not a key of it.
\<close>

theorem ongoing_and_six_flags:
  "\<forall>p \<in> set (sent_params s (export_games_of_a_user h self username a s)).
     map_of p ''ongoing'' = Some (PStr (if ongoing a then ''true'' else ''false'')) \<and>
     map_of p ''moves'' = Some (PStr ''true'') \<and>
     map_of p ''pgnInJson'' = Some (PStr ''false'') \<and>
     map_of p ''tags'' = Some (PStr ''true'') \<and>
     map_of p ''clocks'' = Some (PStr ''true'') \<and>
     map_of p ''evals'' = Some (PStr ''true'') \<and>
     map_of p ''opening'' = Some (PStr ''true'') \<and>
     ''literate'' \<notin> set (map fst p)"
proof
  fix p
  assume "p \<in> set (sent_params s (export_games_of_a_user h self username a s))"
  then have p: "p = export_games_of_a_user_parameters a"
    by (rule sent_params_user_elem)
  have "''literate'' \<notin> set (map fst p)"
    unfolding p parameter_keys by (cases "vs a") simp_all
  moreover have "map_of p ''ongoing'' = Some (PStr (if ongoing a then ''true'' else ''false''))"
    unfolding p lookup_ongoing by (simp add: json_dumps_def)
  ultimately show "map_of p ''ongoing'' = Some (PStr (if ongoing a then ''true'' else ''false'')) \<and>
     map_of p ''moves'' = Some (PStr ''true'') \<and>
     map_of p ''pgnInJson'' = Some (PStr ''false'') \<and>
     map_of p ''tags'' = Some (PStr ''true'') \<and>
     map_of p ''clocks'' = Some (PStr ''true'') \<and>
     map_of p ''evals'' = Some (PStr ''true'') \<and>
     map_of p ''opening'' = Some (PStr ''true'') \<and>
     ''literate'' \<notin> set (map fst p)"
    unfolding p by (simp only: lookup_flags simp_thms)
qed

text \<open>
  The theorem of claim C6 at concrete calls on the transport \<open>demo_client\<close>.
\<close>

theorem ongoing_and_six_flags_witness:
  "map_of (hd (sent_params ([], 0)
     (export_games_of_a_user spec_hrefs (init demo_client) ''amasend'' default_args ([], 0))))
     ''ongoing'' = Some (PStr ''false'') \<and>
   map_of (hd (sent_params ([], 0)
     (export_games_of_a_user spec_hrefs (init demo_client) ''amasend'' demo_args ([], 0))))
     ''ongoing'' = Some (PStr ''true'') \<and>
   map_of (hd (sent_params ([], 0)
     (export_games_of_a_user spec_hrefs (init demo_client) ''amasend'' demo_args ([], 0))))
     ''opening'' = Some (PStr ''true'') \<and>
   ''literate'' \<notin> set (map fst (hd (sent_params ([], 0)
     (export_games_of_a_user spec_hrefs (init demo_client) ''amasend'' demo_args ([], 0)))))"
proof -
  let ?d = "sent_params ([], 0)
       (export_games_of_a_user spec_hrefs (init demo_client) ''amasend'' default_args ([], 0))"
  let ?e = "sent_params ([], 0)
       (export_games_of_a_user spec_hrefs (init demo_client) ''amasend'' demo_args ([], 0))"
  have "hd ?d \<in> set ?d" and "hd ?e \<in> set ?e"
    by (simp_all add: demo_default_sent demo_args_sent)
  with ongoing_and_six_flags
      [of "([], 0)" spec_hrefs "init demo_client" "''amasend''" default_args]
    ongoing_and_six_flags
      [of "([], 0)" spec_hrefs "init demo_client" "''amasend''" demo_args]
  show ?thesis
    by (simp add: default_args_def demo_args_def)
qed

text \<open>
  Claim C6 as stated (the seven fixed flags) fails: the dictionary sent for the user
  \<^verbatim>\<open>amasend\<close> with the default arguments has no key literate.
\<close>

theorem seven_flags_counterexample:
  "sent_params ([], 0)
     (export_games_of_a_user spec_hrefs (init demo_client) ''amasend'' default_args ([], 0)) =
   [[(''since'', PStr ''Account creation date''), (''until'', PStr ''Now''),
     (''max'', PStr ''null''), (''rated'', PStr ''null''), (''perfType'', PStr ''null''),
     (''color'', PStr ''null''), (''analysed'', PStr ''null''), (''ongoing'', PStr ''false''),
     (''moves'', PStr ''true''), (''pgnInJson'', PStr ''false''), (''tags'', PStr ''true''),
     (''clocks'', PStr ''true''), (''evals'', PStr ''true''), (''opening'', PStr ''true'')]] \<and>
   ''literate'' \<notin> set (map fst (hd (sent_params ([], 0)
     (export_games_of_a_user spec_hrefs (init demo_client) ''amasend'' default_args ([], 0)))))"
  by (simp add: demo_default_sent)

text \<open>
  Claim C7. When the user URL template has no replacement field but \<^verbatim>\<open>{username}\<close>,
  \<^verbatim>\<open>export_games_of_a_user\<close> adds exactly one entry to the log of transport calls: a
  call of \<^verbatim>\<open>request_stream\<close> (not of \<^verbatim>\<open>request\<close>) with the method GET, the template
  with the username substituted, the JSON content-type header and the parameter
  dictionary; and its result is the result of that call.
\<close>

theorem export_games_of_a_user_streams:
  assumes "set (field_names (GAMES_EXPORT_USER_URL h)) \<subseteq> {''username''}"
  shows "export_games_of_a_user h self username a (log, w) =
     (let r = \<lparr>http_method = GET, url = substituted (GAMES_EXPORT_USER_URL h) username,
                headers = [(''Content-Type'', ''application/json'')],
                params = export_games_of_a_user_parameters a\<rparr>
      in (fst (request_stream (client self) r w),
          log @ [(RequestStream, r)],
          snd (request_stream (client self) r w)))"
proof -
  have "str_format (GAMES_EXPORT_USER_URL h) ''username'' username =
      Inr (substituted (GAMES_EXPORT_USER_URL h) username)"
    using assms by (rule str_format_well_formed)
  then show ?thesis
    by (simp add: export_games_of_a_user_run json_headers_def Let_def)
qed

text \<open>
  The theorem of claim C7 at concrete calls on the transport \<open>demo_client\<close>.
\<close>

theorem export_games_of_a_user_streams_witness:
  "set (field_names (GAMES_EXPORT_USER_URL spec_hrefs)) \<subseteq> {''username''} \<and>
   export_games_of_a_user spec_hrefs (init demo_client) ''amasend'' default_args ([], 0) =
     (Inr (Response \<lparr>status = SUCCESS, content = ''/games/user/amasend''\<rparr>),
      [(RequestStream,
        \<lparr>http_method = GET, url = ''/games/user/amasend'',
         headers = [(''Content-Type'', ''application/json'')],
         params = export_games_of_a_user_parameters default_args\<rparr>)],
      1)"
proof -
  have wf: "set (field_names (GAMES_EXPORT_USER_URL spec_hrefs)) \<subseteq> {''username''}"
    by (simp add: spec_hrefs_def)
  from export_games_of_a_user_streams [OF wf, of "init demo_client" "''amasend''" default_args "[]" 0]
  show ?thesis
    using wf by (simp add: spec_hrefs_def init_def demo_client_def Let_def)
qed

text \<open>
  Claim C8. When the one-game URL template has no replacement field but \<^verbatim>\<open>{gameId}\<close>,
  \<^verbatim>\<open>export_one_game\<close> adds exactly one entry to the log of transport calls: a call of
  \<^verbatim>\<open>request\<close> with the method GET, the template with the game id substituted, the
  header dictionary with the single entry Content-Type: application/json and the fixed
  parameters; and its result is the result of that call, unchanged.
\<close>

theorem export_one_game_request:
  assumes "set (field_names (GAMES_EXPORT_ONE_URL h)) \<subseteq> {''gameId''}"
  shows "export_one_game h self game_id (log, w) =
     (let r = \<lparr>http_method = GET, url = substituted (GAMES_EXPORT_ONE_URL h) game_id,
                headers = [(''Content-Type'', ''application/json'')],
                params = export_one_game_parameters\<rparr>
      in (fst (request (client self) r w),
          log @ [(Request, r)],
          snd (request (client self) r w)))"
proof -
  have "str_format (GAMES_EXPORT_ONE_URL h) ''gameId'' game_id =
      Inr (substituted (GAMES_EXPORT_ONE_URL h) game_id)"
    using assms by (rule str_format_well_formed)
  then show ?thesis
    by (simp add: export_one_game_run json_headers_def Let_def)
qed

text \<open>
  The theorem of claim C8 at concrete calls on the transport \<open>demo_client\<close>.
\<close>

theorem export_one_game_request_witness:
  "set (field_names (GAMES_EXPORT_ONE_URL spec_hrefs)) \<subseteq> {''gameId''} \<and>
   export_one_game spec_hrefs (init demo_client) ''q7zvsdUF'' ([], 0) =
     (Inr (Response \<lparr>status = SUCCESS, content = ''/game/export/q7zvsdUF''\<rparr>),
      [(Request,
        \<lparr>http_method = GET, url = ''/game/export/q7zvsdUF'',
         headers = [(''Content-Type'', ''application/json'')],
         params = export_one_game_parameters\<rparr>)],
      1)"
proof -
  have wf: "set (field_names (GAMES_EXPORT_ONE_URL spec_hrefs)) \<subseteq> {''gameId''}"
    by (simp add: spec_hrefs_def)
  from export_one_game_request [OF wf, of "init demo_client" "''q7zvsdUF''" "[]" 0]
  show ?thesis
    using wf by (simp add: spec_hrefs_def init_def demo_client_def Let_def)
qed

text \<open>
  Claim C9. For every game id and every username (any string, the empty one too), with
  URL templates whose only fields are \<^verbatim>\<open>{gameId}\<close> and \<^verbatim>\<open>{username}\<close>, each of the
  two operations makes one transport call, once, and returns what that call returns: a
  Response of any status, or the exception the transport raised. No check of the
  identifier, no second call and no error of its own stands between the two.
\<close>

theorem transport_outcome_returned_unchanged:
  assumes "set (field_names (GAMES_EXPORT_ONE_URL h)) \<subseteq> {''gameId''}"
    and "set (field_names (GAMES_EXPORT_USER_URL h)) \<subseteq> {''username''}"
  shows "(\<exists>r. url r = substituted (GAMES_EXPORT_ONE_URL h) game_id \<and>
            export_one_game h self game_id (log, w) =
              (fst (request (client self) r w), log @ [(Request, r)],
               snd (request (client self) r w))) \<and>
         (\<exists>r. url r = substituted (GAMES_EXPORT_USER_URL h) username \<and>
            export_games_of_a_user h self username a (log, w) =
              (fst (request_stream (client self) r w), log @ [(RequestStream, r)],
               snd (request_stream (client self) r w)))"
proof (intro conjI)
  have one: "str_format (GAMES_EXPORT_ONE_URL h) ''gameId'' game_id =
      Inr (substituted (GAMES_EXPORT_ONE_URL h) game_id)"
    using assms(1) by (rule str_format_well_formed)
  let ?r = "\<lparr>http_method = GET, url = substituted (GAMES_EXPORT_ONE_URL h) game_id,
      headers = json_headers, params = export_one_game_parameters\<rparr>"
  have "url ?r = substituted (GAMES_EXPORT_ONE_URL h) game_id \<and>
      export_one_game h self game_id (log, w) =
        (fst (request (client self) ?r w), log @ [(Request, ?r)],
         snd (request (client self) ?r w))"
    using one by (simp add: export_one_game_run)
  then show "\<exists>r. url r = substituted (GAMES_EXPORT_ONE_URL h) game_id \<and>
      export_one_game h self game_id (log, w) =
        (fst (request (client self) r w), log @ [(Request, r)],
         snd (request (client self) r w))"
    by (rule exI)
next
  have user: "str_format (GAMES_EXPORT_USER_URL h) ''username'' username =
      Inr (substituted (GAMES_EXPORT_USER_URL h) username)"
    using assms(2) by (rule str_format_well_formed)
  let ?r = "\<lparr>http_method = GET, url = substituted (GAMES_EXPORT_USER_URL h) username,
      headers = json_headers, params = export_games_of_a_user_parameters a\<rparr>"
  have "url ?r = substituted (GAMES_EXPORT_USER_URL h) username \<and>
      export_games_of_a_user h self username a (log, w) =
        (fst (request_stream (client self) ?r w), log @ [(RequestStream, ?r)],
         snd (request_stream (client self) ?r w))"
    using user by (simp add: export_games_of_a_user_run)
  then show "\<exists>r. url r = substituted (GAMES_EXPORT_USER_URL h) username \<and>
      export_games_of_a_user h self username a (log, w) =
        (fst (request_stream (client self) r w), log @ [(RequestStream, r)],
         snd (request_stream (client self) r w))"
    by (rule exI)
qed

text \<open>
  The theorem of claim C9 at concrete calls on the transport \<open>demo_client\<close>.
\<close>

theorem transport_outcome_returned_unchanged_witness:
  "set (field_names (GAMES_EXPORT_ONE_URL spec_hrefs)) \<subseteq> {''gameId''} \<and>
   set (field_names (GAMES_EXPORT_USER_URL spec_hrefs)) \<subseteq> {''username''} \<and>
   (\<exists>r. url r = ''/game/export/'' \<and>
      export_one_game spec_hrefs (init demo_client) '''' ([], 1) =
        (Inr (Response \<lparr>status = FAILURE, content = ''not found''\<rparr>), [(Request, r)], 2)) \<and>
   (\<exists>r. url r = ''/games/user/no such user'' \<and>
      export_games_of_a_user spec_hrefs (init demo_client) ''no such user'' default_args ([], 2) =
        (Inl (TransportError ''connection reset''), [(RequestStream, r)], 3))"
proof -
  have one: "set (field_names (GAMES_EXPORT_ONE_URL spec_hrefs)) \<subseteq> {''gameId''}"
    and user: "set (field_names (GAMES_EXPORT_USER_URL spec_hrefs)) \<subseteq> {''username''}"
    by (simp_all add: spec_hrefs_def)
  have req: "\<And>r. request (client (init demo_client)) r (Suc 0) =
      (Inr (Response \<lparr>status = FAILURE, content = ''not found''\<rparr>), 2)"
    and str: "\<And>r. request_stream (client (init demo_client)) r (2::nat) =
      (Inl (TransportError ''connection reset''), 3)"
    by (simp_all add: init_def demo_client_def)
  from transport_outcome_returned_unchanged
      [OF one user, where game_id = "''''" and self = "init demo_client" and log = "[]"
        and w = 1 and username = "''amasend''" and a = default_args]
    transport_outcome_returned_unchanged
      [OF one user, where game_id = "''q7zvsdUF''" and self = "init demo_client" and log = "[]"
        and w = 2 and username = "''no such user''" and a = default_args]
  show ?thesis
    using one user by (simp add: req str spec_hrefs_def)
qed

text \<open>
  Claim C10. Every dictionary that \<^verbatim>\<open>export_games_of_a_user\<close> sends has the key color;
  when the argument \<^verbatim>\<open>color\<close> is \<^verbatim>\<open>None\<close> its value is the sentinel \<^verbatim>\<open>'null'\<close>, and
  otherwise the value of the member.
\<close>

theorem absent_color_is_null:
  "\<forall>p \<in> set (sent_params s (export_games_of_a_user h self username a s)).
     ''color'' \<in> set (map fst p) \<and>
     map_of p ''color'' =
       Some (case color a of None \<Rightarrow> PStr ''null'' | Some c \<Rightarrow> PStr (color_value c))"
proof
  fix p
  assume "p \<in> set (sent_params s (export_games_of_a_user h self username a s))"
  then have p: "p = export_games_of_a_user_parameters a"
    by (rule sent_params_user_elem)
  have "''color'' \<in> set (map fst p)"
    unfolding p parameter_keys by simp
  then show "''color'' \<in> set (map fst p) \<and>
     map_of p ''color'' =
       Some (case color a of None \<Rightarrow> PStr ''null'' | Some c \<Rightarrow> PStr (color_value c))"
    unfolding p by (simp only: lookup_color simp_thms)
qed

text \<open>
  The theorem of claim C10 at concrete calls on the transport \<open>demo_client\<close>.
\<close>

theorem absent_color_is_null_witness:
  "color default_args = None \<and>
   ''color'' \<in> set (map fst (hd (sent_params ([], 0)
     (export_games_of_a_user spec_hrefs (init demo_client) ''amasend'' default_args ([], 0))))) \<and>
   map_of (hd (sent_params ([], 0)
     (export_games_of_a_user spec_hrefs (init demo_client) ''amasend'' default_args ([], 0))))
     ''color'' = Some (PStr ''null'')"
proof -
  let ?d = "sent_params ([], 0)
       (export_games_of_a_user spec_hrefs (init demo_client) ''amasend'' default_args ([], 0))"
  have "hd ?d \<in> set ?d"
    by (simp add: demo_default_sent)
  with absent_color_is_null
      [of "([], 0)" spec_hrefs "init demo_client" "''amasend''" default_args]
  show ?thesis
    by (simp add: default_args_def)
qed

end
